theory Spec2Isabelle
  imports Main "HOL-Library.Multiset"
begin

section \<open>Data model (src/src/lib/supabase.ts, the SQL migration)\<close>

text \<open>
  Row identifiers are UUIDs carried as strings by the client; the timestamp columns
  are points in time, modelled as integers. Field names follow the TypeScript interfaces
  \<^verbatim>\<open>Session\<close>, \<^verbatim>\<open>Participant\<close> and \<^verbatim>\<open>Story\<close>; a prefix is added where two tables
  share a column name. A nullable column is an \<open>option\<close>. The column
  \<^verbatim>\<open>participants.session_id\<close> is nullable in the table, and \<^verbatim>\<open>createSession\<close> inserts
  \<^verbatim>\<open>null\<close> there, so it is an \<open>option\<close> although the interface says \<^verbatim>\<open>string\<close>.
\<close>

type_synonym uuid = string
type_synonym timestamp = int

datatype story_status = Pending | Estimated | Completed

record session =
  s_id :: uuid
  room_code :: string
  s_name :: string
  organizer_id :: uuid
  current_story_id :: "uuid option"
  votes_revealed :: bool
  s_created_at :: timestamp
  updated_at :: timestamp

record participant =
  p_id :: uuid
  p_session_id :: "uuid option"
  p_name :: string
  avatar :: "string option"
  is_organizer :: bool
  has_voted :: bool
  vote :: "string option"
  joined_at :: timestamp
  last_seen :: timestamp

record story =
  st_id :: uuid
  st_session_id :: "uuid option"
  title :: string
  description :: "string option"
  status :: story_status
  order_index :: int
  st_created_at :: timestamp

text \<open>The backing store: the three tables, each a list of rows in insertion order.\<close>

record db =
  sessions :: "session list"
  participants :: "participant list"
  stories :: "story list"

section \<open>Errors\<close>

text \<open>
  The store answers a request with \<^verbatim>\<open>{ data, error }\<close>; \<open>pg_error\<close> is the error
  object, of which the client reads \<^verbatim>\<open>code\<close> and \<^verbatim>\<open>message\<close>. What a client function
  throws is an \<open>error\<close>: the store's error object rethrown (\<^verbatim>\<open>throw error\<close>), a
  \<^verbatim>\<open>new Error(message)\<close>, or the \<^verbatim>\<open>TypeError\<close> of reading a property of
  \<^verbatim>\<open>null\<close> or \<^verbatim>\<open>undefined\<close>.
\<close>

record pg_error =
  err_code :: string
  err_message :: string

datatype error = StoreError pg_error | Error string | TypeError

text \<open>
  Every request may fail before it reaches the tables (network, service): the
  environment decides, and a \<open>fault\<close> of \<open>Some e\<close> is such a failure, which leaves
  the tables as they were.
\<close>

type_synonym fault = "pg_error option"

section \<open>Requests to the store\<close>

text \<open>
  The store is the third-party service behind \<^verbatim>\<open>supabase.from(table)\<close>. Its model
  follows the migration's table definitions (primary keys, the unique room code, the
  foreign key from a participant or story to its session) and the request builders the
  client uses. The environment supplies what the service generates: the new row's
  identifier (\<^verbatim>\<open>gen_random_uuid()\<close>) and the current time (\<^verbatim>\<open>NOW()\<close>).

  \<^verbatim>\<open>.update(values).eq(column, x)\<close> rewrites every row the filter selects and leaves
  the others; \<^verbatim>\<open>.delete().eq(column, x)\<close> removes the selected rows. The migration
  defines no trigger, so an update changes only the columns it names.
\<close>

definition update_where :: "('r \<Rightarrow> bool) \<Rightarrow> ('r \<Rightarrow> 'r) \<Rightarrow> 'r list \<Rightarrow> 'r list" where
  "update_where P f rows = map (\<lambda>r. if P r then f r else r) rows"

definition update_sessions ::
  "fault \<Rightarrow> (session \<Rightarrow> bool) \<Rightarrow> (session \<Rightarrow> session) \<Rightarrow> db \<Rightarrow> pg_error option \<times> db" where
  "update_sessions f P upd d =
     (case f of
        Some e \<Rightarrow> (Some e, d)
      | None \<Rightarrow> (None, d\<lparr>sessions := update_where P upd (sessions d)\<rparr>))"

definition update_participants ::
  "fault \<Rightarrow> (participant \<Rightarrow> bool) \<Rightarrow> (participant \<Rightarrow> participant) \<Rightarrow> db
     \<Rightarrow> pg_error option \<times> db" where
  "update_participants f P upd d =
     (case f of
        Some e \<Rightarrow> (Some e, d)
      | None \<Rightarrow> (None, d\<lparr>participants := update_where P upd (participants d)\<rparr>))"

definition update_stories ::
  "fault \<Rightarrow> (story \<Rightarrow> bool) \<Rightarrow> (story \<Rightarrow> story) \<Rightarrow> db \<Rightarrow> pg_error option \<times> db" where
  "update_stories f P upd d =
     (case f of
        Some e \<Rightarrow> (Some e, d)
      | None \<Rightarrow> (None, d\<lparr>stories := update_where P upd (stories d)\<rparr>))"

definition delete_participants :: "fault \<Rightarrow> (participant \<Rightarrow> bool) \<Rightarrow> db \<Rightarrow> pg_error option \<times> db" where
  "delete_participants f P d =
     (case f of
        Some e \<Rightarrow> (Some e, d)
      | None \<Rightarrow> (None, d\<lparr>participants := filter (\<lambda>p. \<not> P p) (participants d)\<rparr>))"

definition delete_stories :: "fault \<Rightarrow> (story \<Rightarrow> bool) \<Rightarrow> db \<Rightarrow> pg_error option \<times> db" where
  "delete_stories f P d =
     (case f of
        Some e \<Rightarrow> (Some e, d)
      | None \<Rightarrow> (None, d\<lparr>stories := filter (\<lambda>s. \<not> P s) (stories d)\<rparr>))"

text \<open>
  A \<^verbatim>\<open>select\<close> answers with the rows the filters keep. With \<^verbatim>\<open>.single()\<close> the answer
  is one row, and the request is an error with code \<^verbatim>\<open>PGRST116\<close> when the filters
  keep no row or more than one.
\<close>

definition PGRST116 :: pg_error where
  "PGRST116 = \<lparr>err_code = ''PGRST116'',
     err_message = ''JSON object requested, multiple (or no) rows returned''\<rparr>"

definition unique_violation :: pg_error where
  "unique_violation = \<lparr>err_code = ''23505'',
     err_message = ''duplicate key value violates unique constraint''\<rparr>"

definition foreign_key_violation :: pg_error where
  "foreign_key_violation = \<lparr>err_code = ''23503'',
     err_message = ''insert or update on table violates foreign key constraint''\<rparr>"

definition select :: "fault \<Rightarrow> 'r list \<Rightarrow> pg_error + 'r list" where
  "select f rows = (case f of Some e \<Rightarrow> Inl e | None \<Rightarrow> Inr rows)"

definition single :: "fault \<Rightarrow> 'r list \<Rightarrow> pg_error + 'r" where
  "single f rows =
     (case f of
        Some e \<Rightarrow> Inl e
      | None \<Rightarrow> (case rows of [r] \<Rightarrow> Inr r | _ \<Rightarrow> Inl PGRST116))"

text \<open>
  \<^verbatim>\<open>.order(column)\<close> sorts ascending. The service leaves the order of rows with equal
  keys open; the model keeps them in table order (a stable sort).
\<close>

definition order_by :: "('r \<Rightarrow> int) \<Rightarrow> 'r list \<Rightarrow> 'r list" where
  "order_by k rows = sort_key k rows"

text \<open>
  An insert appends the row, with the column defaults of the migration for what the
  request leaves out, and answers with the row (\<^verbatim>\<open>.select().single()\<close>). It is
  refused when the primary key or the room code is taken, or when the session a
  participant or story refers to does not exist.
\<close>

definition insert_participant ::
  "fault \<Rightarrow> uuid \<Rightarrow> timestamp \<Rightarrow> uuid option \<Rightarrow> string \<Rightarrow> string option \<Rightarrow> bool \<Rightarrow> bool \<Rightarrow> db
     \<Rightarrow> (pg_error + participant) \<times> db" where
  "insert_participant f new_id now sid nm av org voted d =
     (case f of
        Some e \<Rightarrow> (Inl e, d)
      | None \<Rightarrow>
          if new_id \<in> set (map p_id (participants d)) then (Inl unique_violation, d)
          else if (case sid of None \<Rightarrow> False | Some s \<Rightarrow> s \<notin> set (map s_id (sessions d)))
          then (Inl foreign_key_violation, d)
          else
            let row = \<lparr>p_id = new_id, p_session_id = sid, p_name = nm, avatar = av,
                       is_organizer = org, has_voted = voted, vote = None,
                       joined_at = now, last_seen = now\<rparr>
            in (Inr row, d\<lparr>participants := participants d @ [row]\<rparr>))"

definition insert_session ::
  "fault \<Rightarrow> uuid \<Rightarrow> timestamp \<Rightarrow> string \<Rightarrow> string \<Rightarrow> uuid \<Rightarrow> bool \<Rightarrow> db
     \<Rightarrow> (pg_error + session) \<times> db" where
  "insert_session f new_id now code nm organizer revealed d =
     (case f of
        Some e \<Rightarrow> (Inl e, d)
      | None \<Rightarrow>
          if new_id \<in> set (map s_id (sessions d)) \<or> code \<in> set (map room_code (sessions d))
          then (Inl unique_violation, d)
          else
            let row = \<lparr>s_id = new_id, room_code = code, s_name = nm, organizer_id = organizer,
                       current_story_id = None, votes_revealed = revealed,
                       s_created_at = now, updated_at = now\<rparr>
            in (Inr row, d\<lparr>sessions := sessions d @ [row]\<rparr>))"

definition insert_story ::
  "fault \<Rightarrow> uuid \<Rightarrow> timestamp \<Rightarrow> uuid \<Rightarrow> string \<Rightarrow> string option \<Rightarrow> int \<Rightarrow> db
     \<Rightarrow> (pg_error + story) \<times> db" where
  "insert_story f new_id now sid ttl descr idx d =
     (case f of
        Some e \<Rightarrow> (Inl e, d)
      | None \<Rightarrow>
          if new_id \<in> set (map st_id (stories d)) then (Inl unique_violation, d)
          else if sid \<notin> set (map s_id (sessions d)) then (Inl foreign_key_violation, d)
          else
            let row = \<lparr>st_id = new_id, st_session_id = Some sid, title = ttl,
                       description = descr, status = Pending, order_index = idx,
                       st_created_at = now\<rparr>
            in (Inr row, d\<lparr>stories := stories d @ [row]\<rparr>))"

section \<open>JavaScript helpers\<close>

text \<open>
  Strings are lists of characters. \<^verbatim>\<open>toUpperCase\<close> is modelled on ASCII, which is all a
  generated room code contains: each of the letters \<^verbatim>\<open>a\<close> to \<^verbatim>\<open>z\<close> becomes its capital
  and every other character stays.
  \<^verbatim>\<open>substr(start, length)\<close> with a start inside the string and \<^verbatim>\<open>findIndex\<close>, which
  answers \<open>-1\<close> when no element qualifies, are as in the language; reading an array
  outside its bounds gives \<^verbatim>\<open>undefined\<close>, here \<open>None\<close>.
\<close>

definition toUpperCase_char :: "char \<Rightarrow> char" where
  "toUpperCase_char c =
     (case map_of (zip ''abcdefghijklmnopqrstuvwxyz'' ''ABCDEFGHIJKLMNOPQRSTUVWXYZ'') c of
        Some u \<Rightarrow> u
      | None \<Rightarrow> c)"

definition toUpperCase :: "string \<Rightarrow> string" where
  "toUpperCase s = map toUpperCase_char s"

definition substr :: "string \<Rightarrow> nat \<Rightarrow> nat \<Rightarrow> string" where
  "substr s start len = take len (drop start s)"

fun findIndex :: "('a \<Rightarrow> bool) \<Rightarrow> 'a list \<Rightarrow> int" where
  "findIndex P [] = - 1"
| "findIndex P (x # xs) =
     (if P x then 0 else (let i = findIndex P xs in if i < 0 then - 1 else i + 1))"

definition at_index :: "'a list \<Rightarrow> int \<Rightarrow> 'a option" where
  "at_index xs i = (if 0 \<le> i \<and> i < int (length xs) then Some (xs ! nat i) else None)"

section \<open>Session and participant lifecycle (src/src/lib/supabase.ts)\<close>

text \<open>
  A function that returns a value yields \<open>Inr\<close> of it, or \<open>Inl\<close> of what it throws; a
  function that returns nothing yields \<open>None\<close> when it returns and \<open>Some err\<close> when
  it throws. Either comes with the tables as the requests left them.

  \<^verbatim>\<open>roomCode\<close> is line 115 of the file: its argument is the string
  \<^verbatim>\<open>Math.random().toString(36)\<close>, the base-36 rendering of a number in \<open>[0, 1)\<close>, which the
  runtime supplies: \<^verbatim>\<open>"0"\<close> for zero, and otherwise \<^verbatim>\<open>"0."\<close> followed by as many digits
  from \<^verbatim>\<open>0-9a-z\<close> as the number needs (\<^verbatim>\<open>"0.i"\<close> for one half, which is 18/36).
\<close>

definition roomCode :: "string \<Rightarrow> string" where
  "roomCode random36 = toUpperCase (substr random36 2 6)"

definition createSession ::
  "string \<Rightarrow> fault \<Rightarrow> uuid \<Rightarrow> fault \<Rightarrow> uuid \<Rightarrow> fault \<Rightarrow> timestamp
     \<Rightarrow> string \<Rightarrow> string \<Rightarrow> string option \<Rightarrow> db \<Rightarrow> (error + session \<times> participant) \<times> db" where
  "createSession random36 f1 pid f2 sid f3 now name organizerName organizerAvatar d =
     (case insert_participant f1 pid now None organizerName organizerAvatar True False d of
        (Inl participantError, d1) \<Rightarrow>
          (Inl (Error (''Failed to create organizer: '' @ err_message participantError)), d1)
      | (Inr organizer, d1) \<Rightarrow>
          (case insert_session f2 sid now (roomCode random36) name (p_id organizer) False d1 of
             (Inl sessionError, d2) \<Rightarrow>
               (Inl (Error (''Failed to create session: '' @ err_message sessionError)), d2)
           | (Inr session, d2) \<Rightarrow>
               (case update_participants f3 (\<lambda>p. p_id p = p_id organizer)
                       (\<lambda>p. p\<lparr>p_session_id := Some (s_id session)\<rparr>) d2 of
                  (Some updateError, d3) \<Rightarrow>
                    (Inl (Error (''Failed to update organizer: '' @ err_message updateError)), d3)
                | (None, d3) \<Rightarrow>
                    (Inr (session, organizer\<lparr>p_session_id := Some (s_id session)\<rparr>), d3))))"

text \<open>
  In \<^verbatim>\<open>joinSession\<close> the name check is a \<^verbatim>\<open>.single()\<close> request: only its row stops the
  join. Its error is printed when the code is not \<^verbatim>\<open>PGRST116\<close> and is otherwise
  ignored, and the insert follows in both cases.
\<close>

definition joinSession ::
  "fault \<Rightarrow> fault \<Rightarrow> fault \<Rightarrow> uuid \<Rightarrow> timestamp \<Rightarrow> string \<Rightarrow> string \<Rightarrow> string option \<Rightarrow> db
     \<Rightarrow> (error + session \<times> participant) \<times> db" where
  "joinSession f1 f2 f3 pid now code participantName participantAvatar d =
     (case single f1 (filter (\<lambda>s. room_code s = toUpperCase code) (sessions d)) of
        Inl sessionError \<Rightarrow>
          (Inl (Error (''Session not found: '' @ err_message sessionError)), d)
      | Inr session \<Rightarrow>
          (case single f2 (filter (\<lambda>p. p_session_id p = Some (s_id session)
                                        \<and> p_name p = participantName) (participants d)) of
             Inr existingParticipant \<Rightarrow>
               (Inl (Error ''A participant with this name already exists in the session''), d)
           | Inl checkError \<Rightarrow>
               (case insert_participant f3 pid now (Some (s_id session)) participantName
                       participantAvatar False False d of
                  (Inl participantError, d') \<Rightarrow>
                    (Inl (Error (''Failed to join session: '' @ err_message participantError)), d')
                | (Inr participant, d') \<Rightarrow> (Inr (session, participant), d'))))"

text \<open>
  \<^verbatim>\<open>getSessionData\<close> reads no \<^verbatim>\<open>error\<close> field and has no \<^verbatim>\<open>throw\<close>: a request that
  fails contributes \<^verbatim>\<open>null\<close>, which stays \<^verbatim>\<open>null\<close> for the session and becomes the empty
  array for the two lists.
\<close>

record session_data =
  sd_session :: "session option"
  sd_participants :: "participant list"
  sd_stories :: "story list"

definition getSessionData :: "fault \<Rightarrow> fault \<Rightarrow> fault \<Rightarrow> uuid \<Rightarrow> db \<Rightarrow> error + session_data" where
  "getSessionData f1 f2 f3 sessionId d =
     (let sessionResult = single f1 (filter (\<lambda>s. s_id s = sessionId) (sessions d));
          participantsResult =
            select f2 (order_by joined_at
              (filter (\<lambda>p. p_session_id p = Some sessionId) (participants d)));
          storiesResult =
            select f3 (order_by order_index
              (filter (\<lambda>s. st_session_id s = Some sessionId) (stories d)))
      in Inr \<lparr>sd_session = (case sessionResult of Inl _ \<Rightarrow> None | Inr s \<Rightarrow> Some s),
              sd_participants = (case participantsResult of Inl _ \<Rightarrow> [] | Inr ps \<Rightarrow> ps),
              sd_stories = (case storiesResult of Inl _ \<Rightarrow> [] | Inr ss \<Rightarrow> ss)\<rparr>)"

section \<open>The vote lifecycle (src/src/lib/supabase.ts)\<close>

definition throw_if :: "pg_error option \<Rightarrow> error option" where
  "throw_if e = map_option StoreError e"

definition updateParticipantVote :: "fault \<Rightarrow> uuid \<Rightarrow> string \<Rightarrow> db \<Rightarrow> error option \<times> db" where
  "updateParticipantVote f participantId v d =
     (let (error, d') =
            update_participants f (\<lambda>p. p_id p = participantId)
              (\<lambda>p. p\<lparr>vote := Some v, has_voted := True\<rparr>) d
      in (throw_if error, d'))"

definition revealVotes :: "fault \<Rightarrow> uuid \<Rightarrow> db \<Rightarrow> error option \<times> db" where
  "revealVotes f sessionId d =
     (let (error, d') =
            update_sessions f (\<lambda>s. s_id s = sessionId) (\<lambda>s. s\<lparr>votes_revealed := True\<rparr>) d
      in (throw_if error, d'))"

text \<open>
  \<^verbatim>\<open>resetVotes\<close> issues both updates before it looks at either answer
  (\<^verbatim>\<open>Promise.all\<close> over two requests that resolve with their error rather than reject),
  so each takes effect unless it fails itself. The two requests write different tables,
  so the order in which the store serves them does not matter. The session's error is
  thrown first.
\<close>

definition resetVotes :: "fault \<Rightarrow> fault \<Rightarrow> uuid \<Rightarrow> db \<Rightarrow> error option \<times> db" where
  "resetVotes f1 f2 sessionId d =
     (let (sessionUpdate, d1) =
            update_sessions f1 (\<lambda>s. s_id s = sessionId) (\<lambda>s. s\<lparr>votes_revealed := False\<rparr>) d;
          (participantsUpdate, d2) =
            update_participants f2 (\<lambda>p. p_session_id p = Some sessionId)
              (\<lambda>p. p\<lparr>vote := None, has_voted := False\<rparr>) d1
      in (case sessionUpdate of
            Some e \<Rightarrow> (Some (StoreError e), d2)
          | None \<Rightarrow> (throw_if participantsUpdate, d2)))"

definition updateCurrentStory :: "fault \<Rightarrow> uuid \<Rightarrow> uuid \<Rightarrow> db \<Rightarrow> error option \<times> db" where
  "updateCurrentStory f sessionId storyId d =
     (let (error, d') =
            update_sessions f (\<lambda>s. s_id s = sessionId)
              (\<lambda>s. s\<lparr>current_story_id := Some storyId\<rparr>) d
      in (throw_if error, d'))"

definition removeParticipant :: "fault \<Rightarrow> uuid \<Rightarrow> db \<Rightarrow> error option \<times> db" where
  "removeParticipant f participantId d =
     (let (error, d') = delete_participants f (\<lambda>p. p_id p = participantId) d
      in (throw_if error, d'))"

definition updateParticipantLastSeen :: "fault \<Rightarrow> timestamp \<Rightarrow> uuid \<Rightarrow> db \<Rightarrow> error option \<times> db" where
  "updateParticipantLastSeen f now participantId d =
     (let (error, d') =
            update_participants f (\<lambda>p. p_id p = participantId) (\<lambda>p. p\<lparr>last_seen := now\<rparr>) d
      in (throw_if error, d'))"

section \<open>Stories (src/src/lib/supabase.ts)\<close>

text \<open>
  \<^verbatim>\<open>Partial<Story>\<close>: the columns an update names. The callers name the title, the
  description, the status and the order index; a column left out keeps its value.
\<close>

record story_updates =
  u_title :: "string option"
  u_description :: "string option"
  u_status :: "story_status option"
  u_order_index :: "int option"

definition no_updates :: story_updates where
  "no_updates = \<lparr>u_title = None, u_description = None, u_status = None, u_order_index = None\<rparr>"

definition apply_updates :: "story_updates \<Rightarrow> story \<Rightarrow> story" where
  "apply_updates u s =
     s\<lparr>title := (case u_title u of None \<Rightarrow> title s | Some t \<Rightarrow> t),
       description := (case u_description u of None \<Rightarrow> description s | Some x \<Rightarrow> Some x),
       status := (case u_status u of None \<Rightarrow> status s | Some x \<Rightarrow> x),
       order_index := (case u_order_index u of None \<Rightarrow> order_index s | Some i \<Rightarrow> i)\<rparr>"

definition addStory ::
  "fault \<Rightarrow> fault \<Rightarrow> uuid \<Rightarrow> timestamp \<Rightarrow> uuid \<Rightarrow> string \<Rightarrow> string option \<Rightarrow> db
     \<Rightarrow> (error + story) \<times> db" where
  "addStory f1 f2 new_id now sessionId ttl descr d =
     (let found = select f1 (take 1 (rev (order_by order_index
                    (filter (\<lambda>s. st_session_id s = Some sessionId) (stories d)))));
          nextOrderIndex = (case found of Inr (s # _) \<Rightarrow> order_index s + 1 | _ \<Rightarrow> 0)
      in case insert_story f2 new_id now sessionId ttl descr nextOrderIndex d of
           (Inl error, d') \<Rightarrow> (Inl (StoreError error), d')
         | (Inr data, d') \<Rightarrow> (Inr data, d'))"

definition updateStory :: "fault \<Rightarrow> uuid \<Rightarrow> story_updates \<Rightarrow> db \<Rightarrow> error option \<times> db" where
  "updateStory f storyId updates d =
     (let (error, d') = update_stories f (\<lambda>s. st_id s = storyId) (apply_updates updates) d
      in (throw_if error, d'))"

definition deleteStory :: "fault \<Rightarrow> uuid \<Rightarrow> db \<Rightarrow> error option \<times> db" where
  "deleteStory f storyId d =
     (let (error, d') = delete_stories f (\<lambda>s. st_id s = storyId) d
      in (throw_if error, d'))"

section \<open>The session page (PokerSession, VotingDeck)\<close>

text \<open>
  The page keeps a mirror of one session in React state; \<open>console\<close> collects what the
  handlers print with \<^verbatim>\<open>console.error\<close> when they catch an error.
\<close>

record client =
  c_session :: "session option"
  c_participants :: "participant list"
  c_stories :: "story list"
  currentStoryIndex :: nat
  selectedVote :: "string option"
  loading :: bool
  console :: "error list"

definition initial_client :: client where
  "initial_client = \<lparr>c_session = None, c_participants = [], c_stories = [],
     currentStoryIndex = 0, selectedVote = None, loading = True, console = []\<rparr>"

text \<open>
  \<^verbatim>\<open>loadSessionData\<close> stores the three results and then reads
  \<^verbatim>\<open>data.session.current_story_id\<close>. With no session that read is a \<^verbatim>\<open>TypeError\<close>,
  which the \<^verbatim>\<open>catch\<close> prints; \<^verbatim>\<open>finally\<close> ends the loading state on every path.
\<close>

definition loadSessionData :: "fault \<Rightarrow> fault \<Rightarrow> fault \<Rightarrow> uuid \<Rightarrow> db \<Rightarrow> client \<Rightarrow> client" where
  "loadSessionData f1 f2 f3 sessionId d c =
     (case getSessionData f1 f2 f3 sessionId d of
        Inl e \<Rightarrow> c\<lparr>loading := False, console := console c @ [e]\<rparr>
      | Inr data \<Rightarrow>
          (let c1 = c\<lparr>c_session := sd_session data,
                      c_participants := sd_participants data,
                      c_stories := sd_stories data\<rparr>
           in case sd_session data of
                None \<Rightarrow> c1\<lparr>loading := False, console := console c1 @ [TypeError]\<rparr>
              | Some s \<Rightarrow>
                  (if current_story_id s \<noteq> None \<and> current_story_id s \<noteq> Some []
                        \<and> 0 < length (sd_stories data)
                   then
                     (let storyIndex =
                            findIndex (\<lambda>st. Some (st_id st) = current_story_id s) (sd_stories data)
                      in if 0 \<le> storyIndex
                         then c1\<lparr>currentStoryIndex := nat storyIndex, loading := False\<rparr>
                         else c1\<lparr>loading := False\<rparr>)
                   else c1\<lparr>loading := False\<rparr>)))"

text \<open>What the page shows: the two early returns of the component, then the session.\<close>

datatype view = LoadingSession | SessionNotFound | SessionPage

definition render :: "client \<Rightarrow> view" where
  "render c =
     (if loading c then LoadingSession
      else if c_session c = None then SessionNotFound
      else SessionPage)"





section \<open>Story ordering (StoryManager)\<close>

text \<open>
  \<^verbatim>\<open>moveStory\<close> works on the story list the page holds. Both updates are started before
  either is awaited; they are served here in the order they are started, which makes no
  difference when the two stories have different identifiers. Reading \<^verbatim>\<open>.id\<close> or
  \<^verbatim>\<open>.order_index\<close> of a missing array element is a \<^verbatim>\<open>TypeError\<close> inside the \<^verbatim>\<open>try\<close>,
  before any request. The first component of the result is what the \<^verbatim>\<open>catch\<close> printed.
\<close>

datatype direction = Up | Down

definition moveStory ::
  "fault \<Rightarrow> fault \<Rightarrow> story list \<Rightarrow> uuid \<Rightarrow> direction \<Rightarrow> db \<Rightarrow> error option \<times> db" where
  "moveStory f1 f2 local_stories ident dir d =
     (let index = findIndex (\<lambda>story. st_id story = ident) local_stories
      in if (dir = Up \<and> index = 0) \<or> (dir = Down \<and> index = int (length local_stories) - 1)
         then (None, d)
         else
           (let currentStory = at_index local_stories index;
                targetIndex = (if dir = Up then index - 1 else index + 1);
                targetStory = at_index local_stories targetIndex
            in case currentStory of
                 None \<Rightarrow> (Some TypeError, d)
               | Some cur \<Rightarrow>
                   (case targetStory of
                      None \<Rightarrow> (Some TypeError, d)
                    | Some tgt \<Rightarrow>
                        (let (r1, d1) = updateStory f1 (st_id cur)
                                          (no_updates\<lparr>u_order_index := Some (order_index tgt)\<rparr>) d;
                             (r2, d2) = updateStory f2 (st_id tgt)
                                          (no_updates\<lparr>u_order_index := Some (order_index cur)\<rparr>) d1
                         in (case r1 of Some e \<Rightarrow> Some e | None \<Rightarrow> r2, d2)))))"


section \<open>All mutations\<close>

text \<open>Every function of the client library that writes to the store, with its arguments.\<close>

datatype mutation =
    CreateSession string fault uuid fault uuid fault timestamp string string "string option"
  | JoinSession fault fault fault uuid timestamp string string "string option"
  | UpdateParticipantVote fault uuid string
  | RevealVotes fault uuid
  | ResetVotes fault fault uuid
  | UpdateCurrentStory fault uuid uuid
  | RemoveParticipant fault uuid
  | UpdateParticipantLastSeen fault timestamp uuid
  | AddStory fault fault uuid timestamp uuid string "string option"
  | UpdateStory fault uuid story_updates
  | DeleteStory fault uuid

fun apply_mutation :: "mutation \<Rightarrow> db \<Rightarrow> db" where
  "apply_mutation (CreateSession r f1 pid f2 sid f3 now nm org av) d =
     snd (createSession r f1 pid f2 sid f3 now nm org av d)"
| "apply_mutation (JoinSession f1 f2 f3 pid now code nm av) d =
     snd (joinSession f1 f2 f3 pid now code nm av d)"
| "apply_mutation (UpdateParticipantVote f pid v) d = snd (updateParticipantVote f pid v d)"
| "apply_mutation (RevealVotes f sid) d = snd (revealVotes f sid d)"
| "apply_mutation (ResetVotes f1 f2 sid) d = snd (resetVotes f1 f2 sid d)"
| "apply_mutation (UpdateCurrentStory f sid stid) d = snd (updateCurrentStory f sid stid d)"
| "apply_mutation (RemoveParticipant f pid) d = snd (removeParticipant f pid d)"
| "apply_mutation (UpdateParticipantLastSeen f now pid) d =
     snd (updateParticipantLastSeen f now pid d)"
| "apply_mutation (AddStory f1 f2 stid now sid ttl descr) d =
     snd (addStory f1 f2 stid now sid ttl descr d)"
| "apply_mutation (UpdateStory f stid u) d = snd (updateStory f stid u d)"
| "apply_mutation (DeleteStory f stid) d = snd (deleteStory f stid d)"

text \<open>The invariant of the participant rows: a row that has voted carries a vote.\<close>

definition consistent_row :: "participant \<Rightarrow> bool" where
  "consistent_row p = (has_voted p \<longrightarrow> vote p \<noteq> None)"

definition vote_consistent :: "db \<Rightarrow> bool" where
  "vote_consistent d = list_all consistent_row (participants d)"

section \<open>Sample tables\<close>

definition alice :: participant where
  "alice = \<lparr>p_id = ''p1'', p_session_id = Some ''s1'', p_name = ''Alice'', avatar = None,
     is_organizer = True, has_voted = False, vote = None, joined_at = 1, last_seen = 1\<rparr>"

definition bob :: participant where
  "bob = \<lparr>p_id = ''p2'', p_session_id = Some ''s1'', p_name = ''Bob'', avatar = None,
     is_organizer = False, has_voted = True, vote = Some ''8'', joined_at = 2, last_seen = 2\<rparr>"

definition carol :: participant where
  "carol = \<lparr>p_id = ''p3'', p_session_id = Some ''s2'', p_name = ''Carol'', avatar = None,
     is_organizer = True, has_voted = True, vote = Some ''5'', joined_at = 3, last_seen = 3\<rparr>"

definition sprint1 :: session where
  "sprint1 = \<lparr>s_id = ''s1'', room_code = ''ABC123'', s_name = ''Sprint 1'',
     organizer_id = ''p1'', current_story_id = None, votes_revealed = True,
     s_created_at = 1, updated_at = 1\<rparr>"

definition sprint2 :: session where
  "sprint2 = \<lparr>s_id = ''s2'', room_code = ''XYZ789'', s_name = ''Sprint 2'',
     organizer_id = ''p3'', current_story_id = None, votes_revealed = False,
     s_created_at = 3, updated_at = 3\<rparr>"

definition story_a :: story where
  "story_a = \<lparr>st_id = ''a'', st_session_id = Some ''s1'', title = ''A'', description = None,
     status = Pending, order_index = 0, st_created_at = 4\<rparr>"

definition story_b :: story where
  "story_b = \<lparr>st_id = ''b'', st_session_id = Some ''s1'', title = ''B'', description = None,
     status = Pending, order_index = 1, st_created_at = 5\<rparr>"

definition db0 :: db where
  "db0 = \<lparr>sessions = [sprint1, sprint2], participants = [alice, bob, carol],
     stories = [story_a, story_b]\<rparr>"

definition network_error :: pg_error where
  "network_error = \<lparr>err_code = [], err_message = ''TypeError: Failed to fetch''\<rparr>"

definition dave_orphan :: participant where
  "dave_orphan = \<lparr>p_id = ''p9'', p_session_id = None, p_name = ''Dave'', avatar = None,
     is_organizer = True, has_voted = False, vote = None, joined_at = 9, last_seen = 9\<rparr>"

definition sprint3 :: session where
  "sprint3 = \<lparr>s_id = ''s9'', room_code = ''4FZYO8'', s_name = ''Sprint 3'',
     organizer_id = ''p9'', current_story_id = None, votes_revealed = False,
     s_created_at = 9, updated_at = 9\<rparr>"

definition bob_again :: participant where
  "bob_again = \<lparr>p_id = ''p4'', p_session_id = Some ''s1'', p_name = ''Bob'', avatar = None,
     is_organizer = False, has_voted = False, vote = None, joined_at = 4, last_seen = 4\<rparr>"

definition third_bob :: participant where
  "third_bob = \<lparr>p_id = ''p5'', p_session_id = Some ''s1'', p_name = ''Bob'', avatar = None,
     is_organizer = False, has_voted = False, vote = None, joined_at = 5, last_seen = 5\<rparr>"

definition db_two_bobs :: db where
  "db_two_bobs = db0\<lparr>participants := [alice, bob, carol, bob_again]\<rparr>"





definition empty_db :: db where
  "empty_db = \<lparr>sessions = [], participants = [], stories = []\<rparr>"

section \<open>Facts about the requests\<close>

lemma update_where_length [simp]: "length (update_where P f rows) = length rows"
  by (simp add: update_where_def)

lemma update_where_mem:
  "r \<in> set (update_where P f rows) \<Longrightarrow> \<exists>r0 \<in> set rows. r = (if P r0 then f r0 else r0)"
  unfolding update_where_def by (induction rows) auto

lemma update_where_filter_not:
  "(\<And>r. P (f r) = P r) \<Longrightarrow>
     filter (\<lambda>r. \<not> P r) (update_where P f rows) = filter (\<lambda>r. \<not> P r) rows"
  by (induction rows) (simp_all add: update_where_def)

lemma update_where_map_field:
  "(\<And>r. g (f r) = g r) \<Longrightarrow> map g (update_where P f rows) = map g rows"
  by (induction rows) (simp_all add: update_where_def)

lemma update_where_idle:
  "(\<And>r. r \<in> set rows \<Longrightarrow> P r \<Longrightarrow> f r = r) \<Longrightarrow> update_where P f rows = rows"
  by (induction rows) (simp_all add: update_where_def)

lemma update_where_twice:
  "(\<And>r. P (f r) = P r) \<Longrightarrow> (\<And>r. f (f r) = f r) \<Longrightarrow>
     update_where P f (update_where P f rows) = update_where P f rows"
  by (induction rows) (simp_all add: update_where_def)

lemma resetVotes_ok:
  "resetVotes None None sid d =
     (None, d\<lparr>sessions := update_where (\<lambda>s. s_id s = sid) (\<lambda>s. s\<lparr>votes_revealed := False\<rparr>)
                  (sessions d),
              participants := update_where (\<lambda>p. p_session_id p = Some sid)
                  (\<lambda>p. p\<lparr>vote := None, has_voted := False\<rparr>) (participants d)\<rparr>)"
  by (simp add: resetVotes_def update_sessions_def update_participants_def throw_if_def)

lemma revealVotes_snd:
  "snd (revealVotes f sid d) =
     (case f of Some e \<Rightarrow> d
      | None \<Rightarrow> d\<lparr>sessions := update_where (\<lambda>s. s_id s = sid)
                                (\<lambda>s. s\<lparr>votes_revealed := True\<rparr>) (sessions d)\<rparr>)"
  by (simp add: revealVotes_def update_sessions_def split: option.split)

text \<open>
  C1. When neither request fails, \<^verbatim>\<open>resetVotes\<close> returns without throwing; afterwards
  every row of the session has \<^verbatim>\<open>votes_revealed = false\<close>, every participant of the
  session has \<^verbatim>\<open>has_voted = false\<close> and \<^verbatim>\<open>vote = null\<close>, and the participants of
  other sessions (and those of no session) are the rows they were, in the same order. No
  row is added or removed.
\<close>

theorem reset_clears_session:
  assumes "resetVotes None None sid d = (r, d')"
  shows "r = None
    \<and> (\<forall>s \<in> set (sessions d'). s_id s = sid \<longrightarrow> \<not> votes_revealed s)
    \<and> (\<forall>p \<in> set (participants d').
          p_session_id p = Some sid \<longrightarrow> \<not> has_voted p \<and> vote p = None)
    \<and> filter (\<lambda>p. p_session_id p \<noteq> Some sid) (participants d')
         = filter (\<lambda>p. p_session_id p \<noteq> Some sid) (participants d)
    \<and> map p_id (participants d') = map p_id (participants d)
    \<and> map s_id (sessions d') = map s_id (sessions d)"
proof -
  let ?S = "update_where (\<lambda>s. s_id s = sid) (\<lambda>s. s\<lparr>votes_revealed := False\<rparr>) (sessions d)"
  let ?P = "update_where (\<lambda>p. p_session_id p = Some sid)
              (\<lambda>p. p\<lparr>vote := None, has_voted := False\<rparr>) (participants d)"
  from assms have "(r, d') = (None, d\<lparr>sessions := ?S, participants := ?P\<rparr>)"
    by (simp add: resetVotes_ok)
  then have r: "r = None" and d': "d' = d\<lparr>sessions := ?S, participants := ?P\<rparr>"
    by simp_all
  have s: "sessions d' = ?S" and p: "participants d' = ?P"
    by (simp_all add: d')
  have 1: "\<forall>s \<in> set (sessions d'). s_id s = sid \<longrightarrow> \<not> votes_revealed s"
  proof (intro ballI impI)
    fix x assume "x \<in> set (sessions d')" and sid: "s_id x = sid"
    then have "x \<in> set ?S" by (simp add: s)
    from update_where_mem [OF this] obtain x0
      where "x = (if s_id x0 = sid then x0\<lparr>votes_revealed := False\<rparr> else x0)" by blast
    with sid show "\<not> votes_revealed x" by (cases "s_id x0 = sid") simp_all
  qed
  have 2: "\<forall>p \<in> set (participants d').
             p_session_id p = Some sid \<longrightarrow> \<not> has_voted p \<and> vote p = None"
  proof (intro ballI impI)
    fix x assume "x \<in> set (participants d')" and sid: "p_session_id x = Some sid"
    then have "x \<in> set ?P" by (simp add: p)
    from update_where_mem [OF this] obtain x0
      where "x = (if p_session_id x0 = Some sid
                  then x0\<lparr>vote := None, has_voted := False\<rparr> else x0)" by blast
    with sid show "\<not> has_voted x \<and> vote x = None"
      by (cases "p_session_id x0 = Some sid") simp_all
  qed
  have 3: "filter (\<lambda>p. p_session_id p \<noteq> Some sid) (participants d')
             = filter (\<lambda>p. p_session_id p \<noteq> Some sid) (participants d)"
    unfolding p by (rule update_where_filter_not) simp
  have 4: "map p_id (participants d') = map p_id (participants d)"
    unfolding p by (rule update_where_map_field) simp
  have 5: "map s_id (sessions d') = map s_id (sessions d)"
    unfolding s by (rule update_where_map_field) simp
  from r 1 2 3 4 5 show ?thesis by blast
qed

theorem reset_clears_session_witness:
  "resetVotes None None ''s1'' db0
     = (None, db0\<lparr>sessions := [sprint1\<lparr>votes_revealed := False\<rparr>, sprint2],
                  participants := [alice, bob\<lparr>vote := None, has_voted := False\<rparr>, carol]\<rparr>)
   \<and> filter (\<lambda>p. p_session_id p \<noteq> Some ''s1'')
        (participants (snd (resetVotes None None ''s1'' db0))) = [carol]"
  using reset_clears_session [of "''s1''" db0 None "snd (resetVotes None None ''s1'' db0)"]
  by (simp add: resetVotes_ok update_where_def db0_def sprint1_def sprint2_def alice_def bob_def
        carol_def)

text \<open>
  C8. \<^verbatim>\<open>revealVotes\<close> is idempotent: a second reveal right after a reveal that went
  through (whether the second request fails or not) leaves the tables as the first left
  them; after the first, every row of the session has \<^verbatim>\<open>votes_revealed = true\<close>; and
  revealing a session that is already revealed changes nothing.
\<close>

theorem reveal_idempotent:
  "snd (revealVotes f2 sid (snd (revealVotes None sid d))) = snd (revealVotes None sid d)
   \<and> (\<forall>s \<in> set (sessions (snd (revealVotes None sid d))). s_id s = sid \<longrightarrow> votes_revealed s)
   \<and> ((\<forall>s \<in> set (sessions d). s_id s = sid \<longrightarrow> votes_revealed s)
        \<longrightarrow> snd (revealVotes f sid d) = d)"
proof (intro conjI impI ballI)
  let ?S = "update_where (\<lambda>s. s_id s = sid) (\<lambda>s. s\<lparr>votes_revealed := True\<rparr>) (sessions d)"
  have tw: "update_where (\<lambda>s. s_id s = sid) (\<lambda>s. s\<lparr>votes_revealed := True\<rparr>) ?S = ?S"
    by (rule update_where_twice) simp_all
  show "snd (revealVotes f2 sid (snd (revealVotes None sid d))) = snd (revealVotes None sid d)"
    by (cases f2) (simp_all add: revealVotes_snd tw)
next
  fix x assume "x \<in> set (sessions (snd (revealVotes None sid d)))" and sid: "s_id x = sid"
  then have "x \<in> set (update_where (\<lambda>s. s_id s = sid) (\<lambda>s. s\<lparr>votes_revealed := True\<rparr>)
                         (sessions d))"
    by (simp add: revealVotes_snd)
  from update_where_mem [OF this] obtain x0
    where "x = (if s_id x0 = sid then x0\<lparr>votes_revealed := True\<rparr> else x0)" by blast
  with sid show "votes_revealed x" by (cases "s_id x0 = sid") simp_all
next
  assume a: "\<forall>s \<in> set (sessions d). s_id s = sid \<longrightarrow> votes_revealed s"
  have "update_where (\<lambda>s. s_id s = sid) (\<lambda>s. s\<lparr>votes_revealed := True\<rparr>) (sessions d)
          = sessions d"
    by (rule update_where_idle) (use a in simp)
  then show "snd (revealVotes f sid d) = d"
    by (cases f) (simp_all add: revealVotes_snd)
qed

theorem reveal_idempotent_witness:
  "snd (revealVotes None ''s2'' (snd (revealVotes None ''s2'' db0)))
     = db0\<lparr>sessions := [sprint1, sprint2\<lparr>votes_revealed := True\<rparr>]\<rparr>
   \<and> snd (revealVotes None ''s2'' db0) = db0\<lparr>sessions := [sprint1, sprint2\<lparr>votes_revealed := True\<rparr>]\<rparr>
   \<and> snd (revealVotes None ''s1'' db0) = db0"
  using reveal_idempotent [of None "''s2''" db0 None]
    reveal_idempotent [of None "''s1''" db0 None]
  by (simp add: revealVotes_snd update_where_def db0_def sprint1_def sprint2_def)

text \<open>
  C10. \<^verbatim>\<open>revealVotes\<close> writes nothing but \<^verbatim>\<open>votes_revealed\<close> of the session it names:
  the participant and story tables are unchanged (so every vote and has-voted flag is),
  every session row keeps its identifier, room code, name, organizer reference,
  current-story reference and timestamps, and the rows of other sessions are unchanged.
\<close>

theorem reveal_frame:
  "participants (snd (revealVotes f sid d)) = participants d
   \<and> stories (snd (revealVotes f sid d)) = stories d
   \<and> map s_id (sessions (snd (revealVotes f sid d))) = map s_id (sessions d)
   \<and> map room_code (sessions (snd (revealVotes f sid d))) = map room_code (sessions d)
   \<and> map s_name (sessions (snd (revealVotes f sid d))) = map s_name (sessions d)
   \<and> map organizer_id (sessions (snd (revealVotes f sid d))) = map organizer_id (sessions d)
   \<and> map current_story_id (sessions (snd (revealVotes f sid d)))
       = map current_story_id (sessions d)
   \<and> map s_created_at (sessions (snd (revealVotes f sid d))) = map s_created_at (sessions d)
   \<and> map updated_at (sessions (snd (revealVotes f sid d))) = map updated_at (sessions d)
   \<and> filter (\<lambda>s. s_id s \<noteq> sid) (sessions (snd (revealVotes f sid d)))
       = filter (\<lambda>s. s_id s \<noteq> sid) (sessions d)"
proof (cases f)
  case (Some e)
  then show ?thesis by (simp add: revealVotes_snd)
next
  case None
  have "filter (\<lambda>s. s_id s \<noteq> sid) (update_where (\<lambda>s. s_id s = sid)
           (\<lambda>s. s\<lparr>votes_revealed := True\<rparr>) (sessions d)) = filter (\<lambda>s. s_id s \<noteq> sid) (sessions d)"
    by (rule update_where_filter_not) simp
  with None show ?thesis
    by (simp add: revealVotes_snd update_where_map_field)
qed

section \<open>Creating a session\<close>

lemma update_where_none:
  "(\<And>r. r \<in> set rows \<Longrightarrow> \<not> P r) \<Longrightarrow> update_where P f rows = rows"
  by (induction rows) (simp_all add: update_where_def)

lemma insert_organizer:
  assumes "pid \<notin> set (map p_id (participants d))"
  shows "insert_participant None pid now None nm av True False d =
           (Inr \<lparr>p_id = pid, p_session_id = None, p_name = nm, avatar = av,
                  is_organizer = True, has_voted = False, vote = None,
                  joined_at = now, last_seen = now\<rparr>,
            d\<lparr>participants := participants d @
                 [\<lparr>p_id = pid, p_session_id = None, p_name = nm, avatar = av,
                   is_organizer = True, has_voted = False, vote = None,
                   joined_at = now, last_seen = now\<rparr>]\<rparr>)"
  using assms by (simp add: insert_participant_def Let_def)

lemma insert_session_refused:
  assumes "f2 \<noteq> None \<or> sid \<in> set (map s_id (sessions d)) \<or> code \<in> set (map room_code (sessions d))"
  shows "\<exists>e. insert_session f2 sid now code nm org False d = (Inl e, d)"
  using assms by (cases f2) (auto simp: insert_session_def)

lemma insert_session_ok:
  assumes "sid \<notin> set (map s_id (sessions d))" and "code \<notin> set (map room_code (sessions d))"
  shows "insert_session None sid now code nm org False d =
           (Inr \<lparr>s_id = sid, room_code = code, s_name = nm, organizer_id = org,
                  current_story_id = None, votes_revealed = False,
                  s_created_at = now, updated_at = now\<rparr>,
            d\<lparr>sessions := sessions d @
                 [\<lparr>s_id = sid, room_code = code, s_name = nm, organizer_id = org,
                   current_story_id = None, votes_revealed = False,
                   s_created_at = now, updated_at = now\<rparr>]\<rparr>)"
  using assms by (simp add: insert_session_def Let_def)

lemma createSession_step1_fails:
  "createSession r (Some e) pid f2 sid f3 now nm org av d =
     (Inl (Error (''Failed to create organizer: '' @ err_message e)), d)"
  by (simp add: createSession_def insert_participant_def)

lemma createSession_step2_fails:
  assumes "pid \<notin> set (map p_id (participants d))"
    and "f2 \<noteq> None \<or> sid \<in> set (map s_id (sessions d))
           \<or> roomCode r \<in> set (map room_code (sessions d))"
  shows "\<exists>msg. createSession r None pid f2 sid f3 now nm org av d =
           (Inl (Error (''Failed to create session: '' @ msg)),
            d\<lparr>participants := participants d @
                 [\<lparr>p_id = pid, p_session_id = None, p_name = org, avatar = av,
                   is_organizer = True, has_voted = False, vote = None,
                   joined_at = now, last_seen = now\<rparr>]\<rparr>)"
proof -
  let ?d1 = "d\<lparr>participants := participants d @
                 [\<lparr>p_id = pid, p_session_id = None, p_name = org, avatar = av,
                   is_organizer = True, has_voted = False, vote = None,
                   joined_at = now, last_seen = now\<rparr>]\<rparr>"
  from assms(2) have "f2 \<noteq> None \<or> sid \<in> set (map s_id (sessions ?d1))
           \<or> roomCode r \<in> set (map room_code (sessions ?d1))" by simp
  from insert_session_refused [OF this] obtain e
    where "insert_session f2 sid now (roomCode r) nm pid False ?d1 = (Inl e, ?d1)" by blast
  then show ?thesis
    by (simp add: createSession_def insert_organizer [OF assms(1)])
qed

lemma createSession_step3:
  assumes "pid \<notin> set (map p_id (participants d))"
    and "sid \<notin> set (map s_id (sessions d))"
    and "roomCode r \<notin> set (map room_code (sessions d))"
  shows "createSession r None pid None sid f3 now nm org av d =
     (case f3 of
        Some e \<Rightarrow>
          (Inl (Error (''Failed to update organizer: '' @ err_message e)),
           d\<lparr>participants := participants d @
                 [\<lparr>p_id = pid, p_session_id = None, p_name = org, avatar = av,
                   is_organizer = True, has_voted = False, vote = None,
                   joined_at = now, last_seen = now\<rparr>],
             sessions := sessions d @
                 [\<lparr>s_id = sid, room_code = roomCode r, s_name = nm, organizer_id = pid,
                   current_story_id = None, votes_revealed = False,
                   s_created_at = now, updated_at = now\<rparr>]\<rparr>)
      | None \<Rightarrow>
          (Inr (\<lparr>s_id = sid, room_code = roomCode r, s_name = nm, organizer_id = pid,
                   current_story_id = None, votes_revealed = False,
                   s_created_at = now, updated_at = now\<rparr>,
                \<lparr>p_id = pid, p_session_id = Some sid, p_name = org, avatar = av,
                   is_organizer = True, has_voted = False, vote = None,
                   joined_at = now, last_seen = now\<rparr>),
           d\<lparr>participants := participants d @
                 [\<lparr>p_id = pid, p_session_id = Some sid, p_name = org, avatar = av,
                   is_organizer = True, has_voted = False, vote = None,
                   joined_at = now, last_seen = now\<rparr>],
             sessions := sessions d @
                 [\<lparr>s_id = sid, room_code = roomCode r, s_name = nm, organizer_id = pid,
                   current_story_id = None, votes_revealed = False,
                   s_created_at = now, updated_at = now\<rparr>]\<rparr>))"
proof -
  let ?o = "\<lparr>p_id = pid, p_session_id = None, p_name = org, avatar = av,
                   is_organizer = True, has_voted = False, vote = None,
                   joined_at = now, last_seen = now\<rparr>"
  let ?d1 = "d\<lparr>participants := participants d @ [?o]\<rparr>"
  have s: "sid \<notin> set (map s_id (sessions ?d1))" "roomCode r \<notin> set (map room_code (sessions ?d1))"
    using assms(2,3) by simp_all
  have u: "update_where (\<lambda>p. p_id p = pid) f (participants d) = participants d" for f
    by (rule update_where_none) (use assms(1) in auto)
  have u2: "update_where (\<lambda>p. p_id p = pid) f (participants d @ [?o]) = participants d @ [f ?o]" for f
    using u [of f] by (simp add: update_where_def)
  show ?thesis
    by (cases f3)
       (simp_all add: createSession_def insert_organizer [OF assms(1)] insert_session_ok [OF s]
          update_participants_def u2)
qed


lemma roomCode_sample: "roomCode ''0.4fzyo82mvyr'' = ''4FZYO8''"
  by (simp add: roomCode_def substr_def toUpperCase_def toUpperCase_char_def)

text \<open>
  C5. \<^verbatim>\<open>createSession\<close>, once the organizer's row is in (its identifier being new): the
  row is inserted first, with no session. If the session insert then fails (the request
  fails, or the identifier or the room code is taken), the function throws
  "Failed to create session" and the tables are the old ones plus that row, still
  without a session. If the session goes in and the patch of the organizer fails, the
  function throws "Failed to update organizer", the session row refers to the organizer,
  and the organizer's row is still without a session. If all three go through, the
  organizer's row carries the session's identifier. No path removes the organizer's row.
\<close>

theorem createSession_three_steps:
  assumes "pid \<notin> set (map p_id (participants d))"
  shows "(f2 \<noteq> None \<or> sid \<in> set (map s_id (sessions d))
            \<or> roomCode r \<in> set (map room_code (sessions d)) \<longrightarrow>
          (\<exists>msg orphan.
             createSession r None pid f2 sid f3 now nm org av d =
               (Inl (Error (''Failed to create session: '' @ msg)),
                d\<lparr>participants := participants d @ [orphan]\<rparr>)
             \<and> p_id orphan = pid \<and> p_session_id orphan = None \<and> p_name orphan = org
             \<and> is_organizer orphan))
    \<and> (sid \<notin> set (map s_id (sessions d)) \<and> roomCode r \<notin> set (map room_code (sessions d)) \<longrightarrow>
          (\<exists>s orphan.
             createSession r None pid None sid (Some e) now nm org av d =
               (Inl (Error (''Failed to update organizer: '' @ err_message e)),
                d\<lparr>participants := participants d @ [orphan], sessions := sessions d @ [s]\<rparr>)
             \<and> p_id orphan = pid \<and> p_session_id orphan = None \<and> p_name orphan = org
             \<and> is_organizer orphan
             \<and> s_id s = sid \<and> organizer_id s = pid \<and> room_code s = roomCode r \<and> s_name s = nm)
        \<and> (\<exists>s organizer.
             createSession r None pid None sid None now nm org av d =
               (Inr (s, organizer),
                d\<lparr>participants := participants d @ [organizer], sessions := sessions d @ [s]\<rparr>)
             \<and> p_id organizer = pid \<and> p_session_id organizer = Some sid
             \<and> p_name organizer = org \<and> is_organizer organizer \<and> \<not> has_voted organizer
             \<and> s_id s = sid \<and> organizer_id s = pid \<and> room_code s = roomCode r \<and> s_name s = nm
             \<and> \<not> votes_revealed s \<and> current_story_id s = None))"
proof (intro conjI impI)
  assume "f2 \<noteq> None \<or> sid \<in> set (map s_id (sessions d))
            \<or> roomCode r \<in> set (map room_code (sessions d))"
  from createSession_step2_fails [OF assms this, of f3 now nm org av]
  obtain msg where "createSession r None pid f2 sid f3 now nm org av d =
           (Inl (Error (''Failed to create session: '' @ msg)),
            d\<lparr>participants := participants d @
                 [\<lparr>p_id = pid, p_session_id = None, p_name = org, avatar = av,
                   is_organizer = True, has_voted = False, vote = None,
                   joined_at = now, last_seen = now\<rparr>]\<rparr>)" by blast
  then show "\<exists>msg orphan.
             createSession r None pid f2 sid f3 now nm org av d =
               (Inl (Error (''Failed to create session: '' @ msg)),
                d\<lparr>participants := participants d @ [orphan]\<rparr>)
             \<and> p_id orphan = pid \<and> p_session_id orphan = None \<and> p_name orphan = org
             \<and> is_organizer orphan"
    by (intro exI [of _ msg] exI [of _ "\<lparr>p_id = pid, p_session_id = None, p_name = org, avatar = av,
                   is_organizer = True, has_voted = False, vote = None,
                   joined_at = now, last_seen = now\<rparr>"]) simp
next
  assume a: "sid \<notin> set (map s_id (sessions d))
               \<and> roomCode r \<notin> set (map room_code (sessions d))"
  then have s: "sid \<notin> set (map s_id (sessions d))"
    and c: "roomCode r \<notin> set (map room_code (sessions d))" by simp_all
  show "\<exists>s orphan.
             createSession r None pid None sid (Some e) now nm org av d =
               (Inl (Error (''Failed to update organizer: '' @ err_message e)),
                d\<lparr>participants := participants d @ [orphan], sessions := sessions d @ [s]\<rparr>)
             \<and> p_id orphan = pid \<and> p_session_id orphan = None \<and> p_name orphan = org
             \<and> is_organizer orphan
             \<and> s_id s = sid \<and> organizer_id s = pid \<and> room_code s = roomCode r \<and> s_name s = nm"
    by (intro exI [of _ "\<lparr>s_id = sid, room_code = roomCode r, s_name = nm, organizer_id = pid,
                   current_story_id = None, votes_revealed = False,
                   s_created_at = now, updated_at = now\<rparr>"]
          exI [of _ "\<lparr>p_id = pid, p_session_id = None, p_name = org, avatar = av,
                   is_organizer = True, has_voted = False, vote = None,
                   joined_at = now, last_seen = now\<rparr>"])
       (simp add: createSession_step3 [OF assms s c])
  show "\<exists>s organizer.
             createSession r None pid None sid None now nm org av d =
               (Inr (s, organizer),
                d\<lparr>participants := participants d @ [organizer], sessions := sessions d @ [s]\<rparr>)
             \<and> p_id organizer = pid \<and> p_session_id organizer = Some sid
             \<and> p_name organizer = org \<and> is_organizer organizer \<and> \<not> has_voted organizer
             \<and> s_id s = sid \<and> organizer_id s = pid \<and> room_code s = roomCode r \<and> s_name s = nm
             \<and> \<not> votes_revealed s \<and> current_story_id s = None"
    by (intro exI [of _ "\<lparr>s_id = sid, room_code = roomCode r, s_name = nm, organizer_id = pid,
                   current_story_id = None, votes_revealed = False,
                   s_created_at = now, updated_at = now\<rparr>"]
          exI [of _ "\<lparr>p_id = pid, p_session_id = Some sid, p_name = org, avatar = av,
                   is_organizer = True, has_voted = False, vote = None,
                   joined_at = now, last_seen = now\<rparr>"])
       (simp add: createSession_step3 [OF assms s c])
qed

lemma db0_fresh:
  "''p9'' \<notin> set (map p_id (participants db0))"
  "''s9'' \<notin> set (map s_id (sessions db0))"
  "''4FZYO8'' \<notin> set (map room_code (sessions db0))"
  by (simp_all add: db0_def alice_def bob_def carol_def sprint1_def sprint2_def)

theorem createSession_three_steps_witness:
  "''p9'' \<notin> set (map p_id (participants db0))
   \<and> (\<exists>msg orphan.
         createSession ''0.4fzyo82mvyr'' None ''p9'' (Some network_error) ''s9'' None 9
           ''Sprint 3'' ''Dave'' None db0
          = (Inl (Error (''Failed to create session: '' @ msg)),
             db0\<lparr>participants := participants db0 @ [orphan]\<rparr>)
         \<and> p_id orphan = ''p9'' \<and> p_session_id orphan = None \<and> p_name orphan = ''Dave''
         \<and> is_organizer orphan)
   \<and> createSession ''0.4fzyo82mvyr'' None ''p9'' (Some network_error) ''s9'' None 9
        ''Sprint 3'' ''Dave'' None db0
       = (Inl (Error ''Failed to create session: TypeError: Failed to fetch''),
          db0\<lparr>participants := [alice, bob, carol, dave_orphan]\<rparr>)
   \<and> createSession ''0.4fzyo82mvyr'' None ''p9'' None ''s9'' (Some network_error) 9
        ''Sprint 3'' ''Dave'' None db0
       = (Inl (Error ''Failed to update organizer: TypeError: Failed to fetch''),
          db0\<lparr>participants := [alice, bob, carol, dave_orphan],
              sessions := [sprint1, sprint2, sprint3]\<rparr>)
   \<and> createSession ''0.4fzyo82mvyr'' None ''p9'' None ''s9'' None 9
        ''Sprint 3'' ''Dave'' None db0
       = (Inr (sprint3, dave_orphan\<lparr>p_session_id := Some ''s9''\<rparr>),
          db0\<lparr>participants := [alice, bob, carol, dave_orphan\<lparr>p_session_id := Some ''s9''\<rparr>],
              sessions := [sprint1, sprint2, sprint3]\<rparr>)"
proof (intro conjI)
  show h: "''p9'' \<notin> set (map p_id (participants db0))" by (rule db0_fresh)
  note t = createSession_three_steps [OF h, of "Some network_error" "''s9''"
          "''0.4fzyo82mvyr''" None 9 "''Sprint 3''" "''Dave''" None network_error]
  show "\<exists>msg orphan.
         createSession ''0.4fzyo82mvyr'' None ''p9'' (Some network_error) ''s9'' None 9
           ''Sprint 3'' ''Dave'' None db0
          = (Inl (Error (''Failed to create session: '' @ msg)),
             db0\<lparr>participants := participants db0 @ [orphan]\<rparr>)
         \<and> p_id orphan = ''p9'' \<and> p_session_id orphan = None \<and> p_name orphan = ''Dave''
         \<and> is_organizer orphan"
    by (rule mp [OF conjunct1 [OF t]]) simp
  have p: "participants db0 = [alice, bob, carol]" and s: "sessions db0 = [sprint1, sprint2]"
    by (simp_all add: db0_def)
  show "createSession ''0.4fzyo82mvyr'' None ''p9'' (Some network_error) ''s9'' None 9
        ''Sprint 3'' ''Dave'' None db0
       = (Inl (Error ''Failed to create session: TypeError: Failed to fetch''),
          db0\<lparr>participants := [alice, bob, carol, dave_orphan]\<rparr>)"
    by (simp add: createSession_def insert_organizer [OF h] insert_session_def
          network_error_def dave_orphan_def p)
  show "createSession ''0.4fzyo82mvyr'' None ''p9'' None ''s9'' (Some network_error) 9
        ''Sprint 3'' ''Dave'' None db0
       = (Inl (Error ''Failed to update organizer: TypeError: Failed to fetch''),
          db0\<lparr>participants := [alice, bob, carol, dave_orphan],
              sessions := [sprint1, sprint2, sprint3]\<rparr>)"
    using db0_fresh
    by (simp add: createSession_step3 roomCode_sample network_error_def dave_orphan_def
          sprint3_def p s)
  show "createSession ''0.4fzyo82mvyr'' None ''p9'' None ''s9'' None 9
        ''Sprint 3'' ''Dave'' None db0
       = (Inr (sprint3, dave_orphan\<lparr>p_session_id := Some ''s9''\<rparr>),
          db0\<lparr>participants := [alice, bob, carol, dave_orphan\<lparr>p_session_id := Some ''s9''\<rparr>],
              sessions := [sprint1, sprint2, sprint3]\<rparr>)"
    using db0_fresh
    by (simp add: createSession_step3 roomCode_sample dave_orphan_def sprint3_def p s)
qed

section \<open>Story ordering\<close>


lemma findIndex_bounds: "- 1 \<le> findIndex P xs \<and> findIndex P xs < int (length xs)"
  by (induction xs) (simp_all add: Let_def)



lemma findIndex_none: "(\<And>x. x \<in> set xs \<Longrightarrow> \<not> P x) \<Longrightarrow> findIndex P xs = - 1"
  by (induction xs) (simp_all add: Let_def)













lemma moveStory_unknown_story:
  assumes "\<And>s. s \<in> set ls \<Longrightarrow> st_id s \<noteq> ident"
  shows "snd (moveStory f1 f2 ls ident dir d) = d"
proof -
  have "findIndex (\<lambda>story. st_id story = ident) ls = - 1"
    by (rule findIndex_none) (use assms in simp)
  then show ?thesis
    by (simp add: moveStory_def at_index_def Let_def)
qed



section \<open>The room code\<close>

lemma toUpperCase_char_digits:
  "c \<in> set ''0123456789abcdefghijklmnopqrstuvwxyz'' \<Longrightarrow>
     toUpperCase_char c \<in> set ''0123456789ABCDEFGHIJKLMNOPQRSTUVWXYZ''"
  by (auto simp: toUpperCase_char_def)

lemma roomCode_shape:
  assumes "set ds \<subseteq> set ''0123456789abcdefghijklmnopqrstuvwxyz''"
  shows "set (roomCode (''0.'' @ ds)) \<subseteq> set ''0123456789ABCDEFGHIJKLMNOPQRSTUVWXYZ''"
    and "length (roomCode (''0.'' @ ds)) = min 6 (length ds)"
proof -
  have r: "roomCode (''0.'' @ ds) = map toUpperCase_char (take 6 ds)"
    by (simp add: roomCode_def substr_def toUpperCase_def)
  show "set (roomCode (''0.'' @ ds)) \<subseteq> set ''0123456789ABCDEFGHIJKLMNOPQRSTUVWXYZ''"
  proof
    fix x assume "x \<in> set (roomCode (''0.'' @ ds))"
    then have "x \<in> toUpperCase_char ` set (take 6 ds)"
      unfolding r by simp
    then obtain c where c: "c \<in> set (take 6 ds)" and x: "x = toUpperCase_char c"
      by blast
    from c have "c \<in> set ds" by (rule in_set_takeD)
    with assms have "c \<in> set ''0123456789abcdefghijklmnopqrstuvwxyz''" by blast
    then show "x \<in> set ''0123456789ABCDEFGHIJKLMNOPQRSTUVWXYZ''"
      unfolding x by (rule toUpperCase_char_digits)
  qed
  show "length (roomCode (''0.'' @ ds)) = min 6 (length ds)"
    unfolding r by (simp add: min.commute)
qed

text \<open>
  C6. When \<^verbatim>\<open>Math.random()\<close> returns one half, whose base-36 rendering is \<^verbatim>\<open>"0.i"\<close>,
  the room code is the single character \<^verbatim>\<open>"I"\<close>, and \<^verbatim>\<open>createSession\<close> stores a
  session under that code: the code is not six characters long. (By \<open>roomCode_shape\<close>
  a code has as many characters as the rendering has digits, six at most, all of them
  digits or capitals.)
\<close>

theorem roomCode_of_one_half:
  "roomCode ''0.i'' = ''I''
   \<and> length (roomCode ''0.i'') = 1
   \<and> fst (createSession ''0.i'' None ''p9'' None ''s9'' None 9 ''Sprint 3'' ''Dave'' None db0)
       = Inr (sprint3\<lparr>room_code := ''I''\<rparr>, dave_orphan\<lparr>p_session_id := Some ''s9''\<rparr>)"
proof -
  have r: "roomCode ''0.i'' = ''I''"
    by (simp add: roomCode_def substr_def toUpperCase_def toUpperCase_char_def)
  have f: "''I'' \<notin> set (map room_code (sessions db0))"
    by (simp add: db0_def sprint1_def sprint2_def)
  show ?thesis
    using db0_fresh f
    by (simp add: r createSession_step3 sprint3_def dave_orphan_def)
qed


section \<open>Joining a session\<close>

lemma toUpperCase_abc123: "toUpperCase ''abc123'' = ''ABC123''"
  by (simp add: toUpperCase_def toUpperCase_char_def)

lemma joinSession_name_taken_once:
  assumes "filter (\<lambda>s. room_code s = toUpperCase code) (sessions d) = [s]"
    and "filter (\<lambda>p. p_session_id p = Some (s_id s) \<and> p_name p = nm) (participants d) = [p]"
  shows "joinSession None None f3 pid now code nm av d =
           (Inl (Error ''A participant with this name already exists in the session''), d)"
  by (simp add: joinSession_def single_def assms)

lemma joinSession_name_taken_twice:
  assumes "filter (\<lambda>s. room_code s = toUpperCase code) (sessions d) = [s]"
    and "filter (\<lambda>p. p_session_id p = Some (s_id s) \<and> p_name p = nm) (participants d)
           = p # q # ps"
    and "pid \<notin> set (map p_id (participants d))"
  shows "\<exists>new. joinSession None None None pid now code nm av d =
           (Inr (s, new), d\<lparr>participants := participants d @ [new]\<rparr>) \<and> p_name new = nm
           \<and> p_session_id new = Some (s_id s)"
proof -
  from assms(1) have "s \<in> set (filter (\<lambda>s. room_code s = toUpperCase code) (sessions d))"
    by simp
  then have "s_id s \<in> set (map s_id (sessions d))" by simp
  with assms show ?thesis
    by (simp add: joinSession_def single_def insert_participant_def Let_def)
qed

lemma joinSession_check_fails:
  "joinSession None (Some network_error) None ''p4'' 4 ''abc123'' ''Bob'' None db0
     = (Inr (sprint1, bob_again), db_two_bobs)"
  by (simp add: joinSession_def single_def insert_participant_def Let_def toUpperCase_abc123
        db0_def db_two_bobs_def sprint1_def sprint2_def alice_def bob_def carol_def bob_again_def)

text \<open>
  C3. In a session that already has two participants called Bob, a join as Bob is not
  refused: the name check asks for a single row, gets two, and so answers with the error
  \<^verbatim>\<open>PGRST116\<close> and no row; \<^verbatim>\<open>joinSession\<close> then inserts a third Bob and returns
  normally. (With exactly one holder of the name the join is refused and the tables stay
  as they were: \<open>joinSession_name_taken_once\<close>. Two holders arise, for one, when a name
  check fails in transit: \<open>joinSession_check_fails\<close>.)
\<close>

theorem joinSession_admits_name_present_twice:
  "map p_name (filter (\<lambda>p. p_session_id p = Some ''s1'') (participants db_two_bobs))
     = [''Alice'', ''Bob'', ''Bob'']
   \<and> joinSession None None None ''p5'' 5 ''abc123'' ''Bob'' None db_two_bobs
     = (Inr (sprint1, third_bob),
        db_two_bobs\<lparr>participants := [alice, bob, carol, bob_again, third_bob]\<rparr>)"
  by (simp add: joinSession_def single_def insert_participant_def Let_def toUpperCase_abc123
        db0_def db_two_bobs_def sprint1_def sprint2_def alice_def bob_def carol_def bob_again_def
        third_bob_def)


section \<open>Loading a session\<close>

lemma getSessionData_ok:
  "getSessionData None None None sid d =
     Inr \<lparr>sd_session = (case filter (\<lambda>s. s_id s = sid) (sessions d) of
                           [s] \<Rightarrow> Some s | _ \<Rightarrow> None),
           sd_participants =
             sort_key joined_at (filter (\<lambda>p. p_session_id p = Some sid) (participants d)),
           sd_stories =
             sort_key order_index (filter (\<lambda>s. st_session_id s = Some sid) (stories d))\<rparr>"
  by (simp add: getSessionData_def single_def select_def order_by_def
           split: list.split)

lemma loadSessionData_no_session:
  assumes "getSessionData f1 f2 f3 sid d = Inr data" and "sd_session data = None"
  shows "loadSessionData f1 f2 f3 sid d c =
           c\<lparr>c_session := None, c_participants := sd_participants data,
             c_stories := sd_stories data, loading := False, console := console c @ [TypeError]\<rparr>"
  using assms by (simp add: loadSessionData_def Let_def)

text \<open>
  C4, as stated, fails: for a session identifier that no row carries, \<^verbatim>\<open>getSessionData\<close>
  returns normally, with a null session and two empty lists; what \<^verbatim>\<open>loadSessionData\<close>
  then catches and prints is the \<^verbatim>\<open>TypeError\<close> of reading a property of that null.
\<close>

theorem getSessionData_missing_session:
  "getSessionData None None None ''s9'' db0
     = Inr \<lparr>sd_session = None, sd_participants = [], sd_stories = []\<rparr>
   \<and> console (loadSessionData None None None ''s9'' db0 initial_client) = [TypeError]"
proof -
  have g: "getSessionData None None None ''s9'' db0
     = Inr \<lparr>sd_session = None, sd_participants = [], sd_stories = []\<rparr>"
    by (simp add: getSessionData_ok db0_def sprint1_def sprint2_def alice_def bob_def carol_def
          story_a_def story_b_def)
  show ?thesis
    by (simp add: g loadSessionData_no_session [OF g] initial_client_def)
qed

text \<open>
  C4, amended. When the three requests go through, \<^verbatim>\<open>getSessionData\<close> returns the
  participants of the session, all of them, in ascending order of \<^verbatim>\<open>joined_at\<close>, its
  stories, all of them, in ascending order of \<^verbatim>\<open>order_index\<close>, and the session row when
  there is exactly one. When there is no such row it still returns, with a null session;
  the page then holds no session and shows "Session not found".
\<close>

theorem getSessionData_fetch:
  "\<exists>data. getSessionData None None None sid d = Inr data
     \<and> mset (sd_participants data)
         = mset (filter (\<lambda>p. p_session_id p = Some sid) (participants d))
     \<and> sorted (map joined_at (sd_participants data))
     \<and> mset (sd_stories data) = mset (filter (\<lambda>s. st_session_id s = Some sid) (stories d))
     \<and> sorted (map order_index (sd_stories data))
     \<and> (\<forall>s. filter (\<lambda>s. s_id s = sid) (sessions d) = [s] \<longrightarrow> sd_session data = Some s)
     \<and> (filter (\<lambda>s. s_id s = sid) (sessions d) = [] \<longrightarrow>
          sd_session data = None
          \<and> c_session (loadSessionData None None None sid d c) = None
          \<and> render (loadSessionData None None None sid d c) = SessionNotFound)"
proof -
  let ?data = "\<lparr>sd_session = (case filter (\<lambda>s. s_id s = sid) (sessions d) of
                           [s] \<Rightarrow> Some s | _ \<Rightarrow> None),
           sd_participants =
             sort_key joined_at (filter (\<lambda>p. p_session_id p = Some sid) (participants d)),
           sd_stories =
             sort_key order_index (filter (\<lambda>s. st_session_id s = Some sid) (stories d))\<rparr>"
  have g: "getSessionData None None None sid d = Inr ?data" by (rule getSessionData_ok)
  have n: "filter (\<lambda>s. s_id s = sid) (sessions d) = [] \<longrightarrow>
          sd_session ?data = None
          \<and> c_session (loadSessionData None None None sid d c) = None
          \<and> render (loadSessionData None None None sid d c) = SessionNotFound"
  proof
    assume e: "filter (\<lambda>s. s_id s = sid) (sessions d) = []"
    then have "sd_session ?data = None" by simp
    from this loadSessionData_no_session [OF g this, of c]
    show "sd_session ?data = None
          \<and> c_session (loadSessionData None None None sid d c) = None
          \<and> render (loadSessionData None None None sid d c) = SessionNotFound"
      by (simp add: render_def)
  qed
  have "mset (sd_participants ?data)
         = mset (filter (\<lambda>p. p_session_id p = Some sid) (participants d))
     \<and> sorted (map joined_at (sd_participants ?data))
     \<and> mset (sd_stories ?data) = mset (filter (\<lambda>s. st_session_id s = Some sid) (stories d))
     \<and> sorted (map order_index (sd_stories ?data))
     \<and> (\<forall>s. filter (\<lambda>s. s_id s = sid) (sessions d) = [s] \<longrightarrow> sd_session ?data = Some s)"
    by simp
  with g n show ?thesis by blast
qed

theorem getSessionData_fetch_witness:
  "getSessionData None None None ''s1'' db0
     = Inr \<lparr>sd_session = Some sprint1, sd_participants = [alice, bob],
            sd_stories = [story_a, story_b]\<rparr>
   \<and> filter (\<lambda>s. s_id s = ''s9'') (sessions db0) = []
   \<and> render (loadSessionData None None None ''s9'' db0 initial_client) = SessionNotFound"
proof (intro conjI)
  show "getSessionData None None None ''s1'' db0
     = Inr \<lparr>sd_session = Some sprint1, sd_participants = [alice, bob],
            sd_stories = [story_a, story_b]\<rparr>"
    by (simp add: getSessionData_ok db0_def sprint1_def sprint2_def alice_def bob_def carol_def
          story_a_def story_b_def)
  show e: "filter (\<lambda>s. s_id s = ''s9'') (sessions db0) = []"
    by (simp add: db0_def sprint1_def sprint2_def)
  from getSessionData_fetch [of "''s9''" db0 initial_client] e
  show "render (loadSessionData None None None ''s9'' db0 initial_client) = SessionNotFound"
    by blast
qed


section \<open>Casting a vote\<close>






section \<open>The vote invariant\<close>

lemma vote_consistent_rows: "vote_consistent d = list_all consistent_row (participants d)"
  by (simp only: vote_consistent_def)

lemma list_all_update_where:
  "list_all Q rows \<Longrightarrow> (\<And>r. Q r \<Longrightarrow> Q (f r)) \<Longrightarrow> list_all Q (update_where P f rows)"
  by (induction rows) (simp_all add: update_where_def)

lemma consistent_update_participants:
  assumes "vote_consistent d" and "\<And>p. consistent_row p \<Longrightarrow> consistent_row (upd p)"
  shows "vote_consistent (snd (update_participants f P upd d))"
proof (cases f)
  case None
  from assms have "list_all consistent_row (update_where P upd (participants d))"
    by (simp add: vote_consistent_rows list_all_update_where)
  with None show ?thesis by (simp add: update_participants_def vote_consistent_rows)
next
  case (Some e)
  with assms(1) show ?thesis by (simp add: update_participants_def)
qed

lemma consistent_update_sessions:
  "vote_consistent d \<Longrightarrow> vote_consistent (snd (update_sessions f P upd d))"
  by (cases f) (simp_all add: update_sessions_def vote_consistent_def)

lemma consistent_update_stories:
  "vote_consistent d \<Longrightarrow> vote_consistent (snd (update_stories f P upd d))"
  by (cases f) (simp_all add: update_stories_def vote_consistent_def)

lemma consistent_delete_stories:
  "vote_consistent d \<Longrightarrow> vote_consistent (snd (delete_stories f P d))"
  by (cases f) (simp_all add: delete_stories_def vote_consistent_def)

lemma consistent_delete_participants:
  "vote_consistent d \<Longrightarrow> vote_consistent (snd (delete_participants f P d))"
  by (cases f) (simp_all add: delete_participants_def vote_consistent_rows list_all_iff)

lemma consistent_insert_participant:
  "vote_consistent d \<Longrightarrow> vote_consistent (snd (insert_participant f pid now sid nm av org False d))"
  by (cases f) (simp_all add: insert_participant_def vote_consistent_def consistent_row_def Let_def)

lemma consistent_insert_session:
  "vote_consistent d \<Longrightarrow> vote_consistent (snd (insert_session f sid now code nm org revealed d))"
  by (cases f) (simp_all add: insert_session_def vote_consistent_def Let_def)

lemma consistent_insert_story:
  "vote_consistent d \<Longrightarrow> vote_consistent (snd (insert_story f stid now sid ttl descr idx d))"
  by (cases f) (simp_all add: insert_story_def vote_consistent_def Let_def)

lemma consistent_updateParticipantVote:
  "vote_consistent d \<Longrightarrow> vote_consistent (snd (updateParticipantVote f pid v d))"
  using consistent_update_participants
          [of d "\<lambda>p. p\<lparr>vote := Some v, has_voted := True\<rparr>" f "\<lambda>p. p_id p = pid"]
  by (simp add: updateParticipantVote_def consistent_row_def split_beta)

lemma consistent_updateParticipantLastSeen:
  "vote_consistent d \<Longrightarrow> vote_consistent (snd (updateParticipantLastSeen f now pid d))"
  using consistent_update_participants
          [of d "\<lambda>p. p\<lparr>last_seen := now\<rparr>" f "\<lambda>p. p_id p = pid"]
  by (simp add: updateParticipantLastSeen_def consistent_row_def split_beta)

lemma consistent_revealVotes:
  "vote_consistent d \<Longrightarrow> vote_consistent (snd (revealVotes f sid d))"
  using consistent_update_sessions [of d f "\<lambda>s. s_id s = sid" "\<lambda>s. s\<lparr>votes_revealed := True\<rparr>"]
  by (simp add: revealVotes_def split_beta)

lemma consistent_updateCurrentStory:
  "vote_consistent d \<Longrightarrow> vote_consistent (snd (updateCurrentStory f sid stid d))"
  using consistent_update_sessions
          [of d f "\<lambda>s. s_id s = sid" "\<lambda>s. s\<lparr>current_story_id := Some stid\<rparr>"]
  by (simp add: updateCurrentStory_def split_beta)

lemma consistent_removeParticipant:
  "vote_consistent d \<Longrightarrow> vote_consistent (snd (removeParticipant f pid d))"
  using consistent_delete_participants [of d f "\<lambda>p. p_id p = pid"]
  by (simp add: removeParticipant_def split_beta)

lemma consistent_updateStory:
  "vote_consistent d \<Longrightarrow> vote_consistent (snd (updateStory f stid u d))"
  using consistent_update_stories [of d f "\<lambda>s. st_id s = stid" "apply_updates u"]
  by (simp add: updateStory_def split_beta)

lemma consistent_deleteStory:
  "vote_consistent d \<Longrightarrow> vote_consistent (snd (deleteStory f stid d))"
  using consistent_delete_stories [of d f "\<lambda>s. st_id s = stid"]
  by (simp add: deleteStory_def split_beta)

lemma consistent_addStory:
  "vote_consistent d \<Longrightarrow> vote_consistent (snd (addStory f1 f2 stid now sid ttl descr d))"
proof -
  assume c: "vote_consistent d"
  have "snd (addStory f1 f2 stid now sid ttl descr d)
          = snd (insert_story f2 stid now sid ttl descr
                  (case select f1 (take 1 (rev (order_by order_index
                      (filter (\<lambda>s. st_session_id s = Some sid) (stories d))))) of
                     Inr (s # _) \<Rightarrow> order_index s + 1 | _ \<Rightarrow> 0) d)"
    by (simp add: addStory_def Let_def split_beta split: sum.split)
  with consistent_insert_story [OF c] show ?thesis by simp
qed

lemma consistent_resetVotes:
  assumes "vote_consistent d"
  shows "vote_consistent (snd (resetVotes f1 f2 sid d))"
proof -
  let ?d1 = "snd (update_sessions f1 (\<lambda>s. s_id s = sid) (\<lambda>s. s\<lparr>votes_revealed := False\<rparr>) d)"
  have 1: "vote_consistent ?d1" using assms by (rule consistent_update_sessions)
  have 2: "vote_consistent (snd (update_participants f2 (\<lambda>p. p_session_id p = Some sid)
              (\<lambda>p. p\<lparr>vote := None, has_voted := False\<rparr>) ?d1))"
    by (rule consistent_update_participants [OF 1]) (simp add: consistent_row_def)
  have "snd (resetVotes f1 f2 sid d)
          = snd (update_participants f2 (\<lambda>p. p_session_id p = Some sid)
              (\<lambda>p. p\<lparr>vote := None, has_voted := False\<rparr>) ?d1)"
    by (simp add: resetVotes_def split_beta split: option.split)
  with 2 show ?thesis by simp
qed

lemma consistent_joinSession:
  assumes "vote_consistent d"
  shows "vote_consistent (snd (joinSession f1 f2 f3 pid now code nm av d))"
proof (cases "single f1 (filter (\<lambda>s. room_code s = toUpperCase code) (sessions d))")
  case (Inl e)
  with assms show ?thesis by (simp add: joinSession_def)
next
  case (Inr s)
  show ?thesis
  proof (cases "single f2 (filter (\<lambda>p. p_session_id p = Some (s_id s) \<and> p_name p = nm)
                             (participants d))")
    case (Inr p)
    with \<open>single f1 _ = Inr s\<close> assms show ?thesis by (simp add: joinSession_def)
  next
    case (Inl e)
    have "snd (joinSession f1 f2 f3 pid now code nm av d)
            = snd (insert_participant f3 pid now (Some (s_id s)) nm av False False d)"
      using Inl \<open>single f1 _ = Inr s\<close>
      by (simp add: joinSession_def split_beta split: sum.split)
    with consistent_insert_participant [OF assms] show ?thesis by simp
  qed
qed

lemma consistent_createSession:
  assumes "vote_consistent d"
  shows "vote_consistent (snd (createSession r f1 pid f2 sid f3 now nm org av d))"
proof -
  obtain r1 d1 where i1: "insert_participant f1 pid now None org av True False d = (r1, d1)"
    by (cases "insert_participant f1 pid now None org av True False d")
  have c1: "vote_consistent d1"
    using consistent_insert_participant [OF assms, of f1 pid now None org av True] i1 by simp
  show ?thesis
  proof (cases r1)
    case (Inl e)
    with i1 c1 show ?thesis by (simp add: createSession_def)
  next
    case (Inr organizer)
    obtain r2 d2
      where i2: "insert_session f2 sid now (roomCode r) nm (p_id organizer) False d1 = (r2, d2)"
      by (cases "insert_session f2 sid now (roomCode r) nm (p_id organizer) False d1")
    have c2: "vote_consistent d2"
      using consistent_insert_session [OF c1, of f2 sid now "roomCode r" nm "p_id organizer" False]
        i2 by simp
    show ?thesis
    proof (cases r2)
      case (Inl e)
      with i1 i2 Inr c2 show ?thesis by (simp add: createSession_def)
    next
      case (Inr session)
      have c3: "vote_consistent (snd (update_participants f3 (\<lambda>p. p_id p = p_id organizer)
                   (\<lambda>p. p\<lparr>p_session_id := Some (s_id session)\<rparr>) d2))"
        by (rule consistent_update_participants [OF c2]) (simp add: consistent_row_def)
      have "snd (createSession r f1 pid f2 sid f3 now nm org av d)
              = snd (update_participants f3 (\<lambda>p. p_id p = p_id organizer)
                   (\<lambda>p. p\<lparr>p_session_id := Some (s_id session)\<rparr>) d2)"
        using i1 i2 Inr \<open>r1 = Inr organizer\<close>
        by (simp add: createSession_def split_beta split: option.split)
      with c3 show ?thesis by simp
    qed
  qed
qed

lemma apply_mutation_consistent:
  "vote_consistent d \<Longrightarrow> vote_consistent (apply_mutation m d)"
proof (cases m)
  case (CreateSession r f1 pid f2 sid f3 now nm org av)
  assume "vote_consistent d"
  with CreateSession show ?thesis by (simp add: consistent_createSession)
next
  case (JoinSession f1 f2 f3 pid now code nm av)
  assume "vote_consistent d"
  with JoinSession show ?thesis by (simp add: consistent_joinSession)
next
  case (UpdateParticipantVote f pid v)
  assume "vote_consistent d"
  with UpdateParticipantVote show ?thesis by (simp add: consistent_updateParticipantVote)
next
  case (RevealVotes f sid)
  assume "vote_consistent d"
  with RevealVotes show ?thesis by (simp add: consistent_revealVotes)
next
  case (ResetVotes f1 f2 sid)
  assume "vote_consistent d"
  with ResetVotes show ?thesis by (simp add: consistent_resetVotes)
next
  case (UpdateCurrentStory f sid stid)
  assume "vote_consistent d"
  with UpdateCurrentStory show ?thesis by (simp add: consistent_updateCurrentStory)
next
  case (RemoveParticipant f pid)
  assume "vote_consistent d"
  with RemoveParticipant show ?thesis by (simp add: consistent_removeParticipant)
next
  case (UpdateParticipantLastSeen f now pid)
  assume "vote_consistent d"
  with UpdateParticipantLastSeen show ?thesis by (simp add: consistent_updateParticipantLastSeen)
next
  case (AddStory f1 f2 stid now sid ttl descr)
  assume "vote_consistent d"
  with AddStory show ?thesis by (simp add: consistent_addStory)
next
  case (UpdateStory f stid u)
  assume "vote_consistent d"
  with UpdateStory show ?thesis by (simp add: consistent_updateStory)
next
  case (DeleteStory f stid)
  assume "vote_consistent d"
  with DeleteStory show ?thesis by (simp add: consistent_deleteStory)
qed


lemma fold_mutations_consistent:
  "vote_consistent d \<Longrightarrow> vote_consistent (fold apply_mutation ms d)"
  by (induction ms arbitrary: d) (simp_all add: apply_mutation_consistent)

lemma together_update_where:
  "list_all2 (\<lambda>q0 q. q = q0 \<or> q = f q0) rows (update_where P f rows)"
  by (induction rows) (simp_all add: update_where_def)

lemma resetVotes_together:
  "list_all2 (\<lambda>q0 q. q = q0 \<or> q = q0\<lparr>vote := None, has_voted := False\<rparr>)
     (participants d) (participants (snd (resetVotes f1 f2 sid d)))"
proof -
  have "participants (snd (resetVotes f1 f2 sid d))
          = (case f2 of Some e \<Rightarrow> participants d
             | None \<Rightarrow> update_where (\<lambda>p. p_session_id p = Some sid)
                         (\<lambda>p. p\<lparr>vote := None, has_voted := False\<rparr>) (participants d))"
    by (simp add: resetVotes_def update_sessions_def update_participants_def split_beta
          split: option.split)
  then show ?thesis
    using together_update_where [of "\<lambda>p. p\<lparr>vote := None, has_voted := False\<rparr>" "participants d"
            "\<lambda>p. p_session_id p = Some sid"]
    by (cases f2) (simp_all add: list_all2_same list.pred_True)
qed

lemma updateParticipantVote_together:
  "list_all2 (\<lambda>q0 q. q = q0 \<or> q = q0\<lparr>vote := Some v, has_voted := True\<rparr>)
     (participants d) (participants (snd (updateParticipantVote f pid v d)))"
proof -
  have "participants (snd (updateParticipantVote f pid v d))
          = (case f of Some e \<Rightarrow> participants d
             | None \<Rightarrow> update_where (\<lambda>p. p_id p = pid)
                         (\<lambda>p. p\<lparr>vote := Some v, has_voted := True\<rparr>) (participants d))"
    by (simp add: updateParticipantVote_def update_participants_def split_beta
          split: option.split)
  then show ?thesis
    using together_update_where [of "\<lambda>p. p\<lparr>vote := Some v, has_voted := True\<rparr>" "participants d"
            "\<lambda>p. p_id p = pid"]
    by (cases f) (simp_all add: list_all2_same list.pred_True)
qed

text \<open>
  C9. Every mutation keeps the invariant that a participant row with
  \<^verbatim>\<open>has_voted = true\<close> carries a vote, whichever of its requests fail; hence every
  store reached from the empty one by mutations satisfies it. A vote is cast as one
  update that sets both columns of a row, and a reset is one update that clears both:
  after either, each participant row is the row it was or that row with both columns
  written, never with one of them.
\<close>

theorem mutations_keep_votes_consistent:
  "(vote_consistent d \<longrightarrow> vote_consistent (apply_mutation m d))
   \<and> vote_consistent (fold apply_mutation ms empty_db)
   \<and> list_all2 (\<lambda>q0 q. q = q0 \<or> q = q0\<lparr>vote := Some v, has_voted := True\<rparr>)
        (participants d) (participants (snd (updateParticipantVote f pid v d)))
   \<and> list_all2 (\<lambda>q0 q. q = q0 \<or> q = q0\<lparr>vote := None, has_voted := False\<rparr>)
        (participants d) (participants (snd (resetVotes f1 f2 sid d)))"
proof (intro conjI impI)
  assume "vote_consistent d"
  then show "vote_consistent (apply_mutation m d)" by (rule apply_mutation_consistent)
next
  have "vote_consistent empty_db" by (simp add: vote_consistent_def empty_db_def)
  then show "vote_consistent (fold apply_mutation ms empty_db)"
    by (rule fold_mutations_consistent)
next
  show "list_all2 (\<lambda>q0 q. q = q0 \<or> q = q0\<lparr>vote := Some v, has_voted := True\<rparr>)
        (participants d) (participants (snd (updateParticipantVote f pid v d)))"
    by (rule updateParticipantVote_together)
next
  show "list_all2 (\<lambda>q0 q. q = q0 \<or> q = q0\<lparr>vote := None, has_voted := False\<rparr>)
        (participants d) (participants (snd (resetVotes f1 f2 sid d)))"
    by (rule resetVotes_together)
qed

theorem mutations_keep_votes_consistent_witness:
  "vote_consistent db0
   \<and> vote_consistent (apply_mutation (ResetVotes None (Some network_error) ''s1'') db0)
   \<and> participants (apply_mutation (ResetVotes None (Some network_error) ''s1'') db0)
       = [alice, bob, carol]
   \<and> participants (apply_mutation (ResetVotes None None ''s1'') db0)
       = [alice, bob\<lparr>vote := None, has_voted := False\<rparr>, carol]"
proof (intro conjI)
  show c: "vote_consistent db0"
    by (simp add: vote_consistent_def consistent_row_def db0_def alice_def bob_def carol_def)
  from mutations_keep_votes_consistent
         [of db0 "ResetVotes None (Some network_error) ''s1''" "[]" "''8''" None "''p2''" None None
            "''s1''"] c
  show "vote_consistent (apply_mutation (ResetVotes None (Some network_error) ''s1'') db0)"
    by blast
  show "participants (apply_mutation (ResetVotes None (Some network_error) ''s1'') db0)
       = [alice, bob, carol]"
    by (simp add: resetVotes_def update_sessions_def update_participants_def db0_def)
  show "participants (apply_mutation (ResetVotes None None ''s1'') db0)
       = [alice, bob\<lparr>vote := None, has_voted := False\<rparr>, carol]"
    by (simp add: resetVotes_def update_sessions_def update_participants_def update_where_def
          db0_def alice_def bob_def carol_def)
qed

end
